theory Spec2Isabelle
  imports Complex_Main
begin

section \<open>JavaScript values\<close>

text \<open>
  The wrapper class passes coordinates around untyped: a latitude may be a number, a
  numeric string (the click handler stores \<open>toFixed(8)\<close> strings), \<open>undefined\<close> or
  \<open>null\<close>. Numbers are the finite reals together with \<open>NaN\<close>; rounding and the two
  infinities are outside the model.
\<close>

datatype jsnum = NaN | Fin real

datatype jsval = JUndefined | JNull | JBool bool | JNum jsnum | JStr string

fun truthy :: "jsval \<Rightarrow> bool" where
  "truthy JUndefined = False"
| "truthy JNull = False"
| "truthy (JBool b) = b"
| "truthy (JNum NaN) = False"
| "truthy (JNum (Fin r)) = (r \<noteq> 0)"
| "truthy (JStr s) = (s \<noteq> [])"

text \<open>The operators \<open>a || b\<close> and \<open>a ?? b\<close>.\<close>

definition js_or :: "jsval \<Rightarrow> jsval \<Rightarrow> jsval" where
  "js_or a b = (if truthy a then a else b)"

fun nullish :: "jsval \<Rightarrow> bool" where
  "nullish JUndefined = True"
| "nullish JNull = True"
| "nullish _ = False"

definition js_coalesce :: "jsval \<Rightarrow> jsval \<Rightarrow> jsval" where
  "js_coalesce a b = (if nullish a then b else a)"

text \<open>A default parameter value applies to \<open>undefined\<close> only.\<close>

definition js_default :: "jsval \<Rightarrow> jsval \<Rightarrow> jsval" where
  "js_default a d = (if a = JUndefined then d else a)"

section \<open>Distance calculator\<close>

text \<open>\<open>Math.atan2(y, x)\<close> on finite arguments.\<close>

definition atan2 :: "real \<Rightarrow> real \<Rightarrow> real" where
  "atan2 y x =
     (if 0 < x then arctan (y / x)
      else if x < 0 then (if 0 \<le> y then arctan (y / x) + pi else arctan (y / x) - pi)
      else if 0 < y then pi / 2
      else if y < 0 then - (pi / 2)
      else 0)"

definition toRad :: "real \<Rightarrow> real" where
  "toRad deg = (deg * pi) / 180"

definition haversine_a :: "real \<Rightarrow> real \<Rightarrow> real \<Rightarrow> real \<Rightarrow> real" where
  "haversine_a lat1 lng1 lat2 lng2 =
     (let dLat = toRad (lat2 - lat1);
          dLng = toRad (lng2 - lng1)
      in (sin (dLat / 2))\<^sup>2 + cos (toRad lat1) * cos (toRad lat2) * (sin (dLng / 2))\<^sup>2)"

definition haversineDistance :: "real \<Rightarrow> real \<Rightarrow> real \<Rightarrow> real \<Rightarrow> real" where
  "haversineDistance lat1 lng1 lat2 lng2 =
     (let R = 6371000;
          a = haversine_a lat1 lng1 lat2 lng2
      in R * 2 * atan2 (sqrt a) (sqrt (1 - a)))"

section \<open>Builtins taken from the host environment\<close>

text \<open>
  String parsing and number formatting are builtins of the JavaScript host, not code of
  the wrapper; they are parameters of the model. \<open>expParseInt\<close> is \<open>parseInt\<close> on a
  number whose decimal string is in exponent notation (magnitude at least \<open>10\<^sup>2\<^sup>1\<close> or
  below \<open>10\<^sup>-\<^sup>6\<close>).
\<close>

record jsenv =
  strParseFloat :: "string \<Rightarrow> jsnum"
  strParseInt :: "string \<Rightarrow> jsnum"
  strToNumber :: "string \<Rightarrow> jsnum"
  expParseInt :: "real \<Rightarrow> jsnum"
  numToString :: "jsnum \<Rightarrow> string"
  numToFixed :: "nat \<Rightarrow> jsnum \<Rightarrow> string"

text \<open>
  \<open>parseFloat(v)\<close> parses the string of \<open>v\<close>; the string of a number parses back to
  that number, the strings of \<open>undefined\<close>, \<open>null\<close> and booleans do not parse.
\<close>

fun parseFloat :: "jsenv \<Rightarrow> jsval \<Rightarrow> jsnum" where
  "parseFloat env (JNum n) = n"
| "parseFloat env (JStr s) = strParseFloat env s"
| "parseFloat env _ = NaN"

definition trunc :: "real \<Rightarrow> real" where
  "trunc r = (if 0 \<le> r then of_int \<lfloor>r\<rfloor> else of_int \<lceil>r\<rceil>)"

fun parseInt :: "jsenv \<Rightarrow> jsval \<Rightarrow> jsnum" where
  "parseInt env (JNum NaN) = NaN"
| "parseInt env (JNum (Fin r)) =
     (if r = 0 then Fin 0
      else if 1 / 10 ^ 6 \<le> \<bar>r\<bar> \<and> \<bar>r\<bar> < 10 ^ 21 then Fin (trunc r)
      else expParseInt env r)"
| "parseInt env (JStr s) = strParseInt env s"
| "parseInt env _ = NaN"

text \<open>The coercion of an operand of \<open>-\<close>, \<open>*\<close> and \<open>/\<close>.\<close>

fun toNumber :: "jsenv \<Rightarrow> jsval \<Rightarrow> jsnum" where
  "toNumber env JUndefined = NaN"
| "toNumber env JNull = Fin 0"
| "toNumber env (JBool b) = Fin (if b then 1 else 0)"
| "toNumber env (JNum n) = n"
| "toNumber env (JStr s) = strToNumber env s"

text \<open>The string a template literal inserts for a value.\<close>

fun toStr :: "jsenv \<Rightarrow> jsval \<Rightarrow> string" where
  "toStr env JUndefined = ''undefined''"
| "toStr env JNull = ''null''"
| "toStr env (JBool b) = (if b then ''true'' else ''false'')"
| "toStr env (JNum n) = numToString env n"
| "toStr env (JStr s) = s"

fun divBy :: "jsnum \<Rightarrow> real \<Rightarrow> jsnum" where
  "divBy NaN d = NaN"
| "divBy (Fin r) d = Fin (r / d)"

text \<open>
  \<open>#haversineDistance\<close> as \<open>drawRoute\<close> calls it, on the raw \<open>lat\<close>/\<open>lng\<close> values:
  every operand is coerced to a number and \<open>NaN\<close> propagates.
\<close>

definition haversineJs :: "jsenv \<Rightarrow> jsval \<Rightarrow> jsval \<Rightarrow> jsval \<Rightarrow> jsval \<Rightarrow> jsnum" where
  "haversineJs env lat1 lng1 lat2 lng2 =
     (case (toNumber env lat1, toNumber env lng1, toNumber env lat2, toNumber env lng2) of
        (Fin a, Fin b, Fin c, Fin d) \<Rightarrow> Fin (haversineDistance a b c d)
      | _ \<Rightarrow> NaN)"

section \<open>Data model\<close>

datatype js_error = TypeError

text \<open>
  An argument that has a default: omitted (\<open>undefined\<close>, the default applies), \<open>null\<close>
  (no default applies; destructuring it or reading a property of it is a TypeError), or
  given.
\<close>

datatype 'a arg = Omitted | NullArg | Given 'a

record config =
  cfg_lat :: jsval
  cfg_lng :: jsval
  cfg_zoom :: jsval
  cfg_containerId :: jsval
  cfg_tileUrl :: jsval
  cfg_attribution :: jsval
  cfg_selectorIcon :: jsval

text \<open>The two emoji icons, as their UTF-8 bytes.\<close>

definition icon_package :: string where
  "icon_package = [CHR 0xF0, CHR 0x9F, CHR 0x93, CHR 0xA6]"

definition icon_home :: string where
  "icon_home = [CHR 0xF0, CHR 0x9F, CHR 0x8F, CHR 0xA0]"

definition DEFAULTS :: config where
  "DEFAULTS = \<lparr>
     cfg_lat = JNum (Fin 8.240773),
     cfg_lng = JNum (Fin (- 65.546409)),
     cfg_zoom = JNum (Fin 7),
     cfg_containerId = JStr ''map'',
     cfg_tileUrl = JStr ''https://{s}.tile.openstreetmap.org/{z}/{x}/{y}.png'',
     cfg_attribution =
       JStr (CHR 0xC2 # CHR 0xA9 # '' OpenStreetMap | Strix Technologies | aceroraas''),
     cfg_selectorIcon = JStr icon_package \<rparr>"

text \<open>The options object of the constructor: a key is present (\<open>Some\<close>) or absent.\<close>

record options =
  opt_lat :: "jsval option"
  opt_lng :: "jsval option"
  opt_zoom :: "jsval option"
  opt_containerId :: "jsval option"
  opt_tileUrl :: "jsval option"
  opt_attribution :: "jsval option"
  opt_selectorIcon :: "jsval option"

definition no_options :: options where
  "no_options = \<lparr> opt_lat = None, opt_lng = None, opt_zoom = None, opt_containerId = None,
     opt_tileUrl = None, opt_attribution = None, opt_selectorIcon = None \<rparr>"

subsection \<open>Layers of the rendering engine\<close>

text \<open>
  The popup bound to a marker: the selector's own popup, built by
  \<open>#buildSelectorPopup(lat, lng)\<close> and kept symbolic, or content given by a caller.
\<close>

datatype popup = SelectorPopup jsval jsval | Html jsval

fun popup_truthy :: "popup \<Rightarrow> bool" where
  "popup_truthy (SelectorPopup a b) = True"
| "popup_truthy (Html v) = truthy v"

record line_style =
  ls_color :: jsval
  ls_weight :: jsval
  ls_opacity :: jsval
  ls_dashArray :: jsval

record circle_style =
  cs_radius :: jsval
  cs_color :: jsval
  cs_fillColor :: jsval
  cs_fillOpacity :: jsval
  cs_weight :: jsval

datatype layer =
    TileLayer jsval jsval
  | Marker jsval jsval jsval "popup option"
  | Circle jsval jsval circle_style "jsval option"
  | Polyline "(jsval \<times> jsval) list" line_style

text \<open>
  A handle is a reference to an engine object: its identity and what it was created
  with. Identities come from the counter \<open>nextId\<close> of the session.
\<close>

datatype handle = Handle (hid: nat) (hlayer: layer)

fun isMarker :: "handle \<Rightarrow> bool" where
  "isMarker (Handle i (Marker a b ic p)) = True"
| "isMarker _ = False"

fun isCircle :: "handle \<Rightarrow> bool" where
  "isCircle (Handle i (Circle a b st p)) = True"
| "isCircle _ = False"

fun isSelectorMarker :: "handle \<Rightarrow> bool" where
  "isSelectorMarker (Handle i (Marker a b ic (Some (SelectorPopup c d)))) = True"
| "isSelectorMarker _ = False"

text \<open>What \<open>fitBounds\<close> is asked to frame: the bounds of layers, or a box.\<close>

datatype frame = FrameLayers "handle list" | FrameBox real real real real

text \<open>
  Modelled from the spec: the rendering engine (the library behind the global \<open>L\<close>:
  \<open>L.map\<close>, \<open>setView\<close>, \<open>fitBounds\<close>, \<open>addTo\<close>, \<open>removeLayer\<close>, \<open>on\<close>,
  \<open>whenReady\<close>) is not among the sources. Its contract is to create a surface bound to
  a container with an initial view, to add and remove layers, to fit the view to bounds
  and to report clicks. The surface is its container, its view, the layers on it, the
  number of click listeners on the map and on its container, and the geocoder controls
  (placeholder and error message). Adding a layer that is on the surface and removing one
  that is not change nothing; no engine call fails. The view \<open>fitBounds\<close> settles on
  is the engine's choice, the parameter \<open>fitView\<close>.
\<close>

record lmap =
  m_container :: jsval
  m_center :: "jsval \<times> jsval"
  m_zoom :: jsval
  m_layers :: "handle list"
  m_clickListeners :: nat
  m_containerListeners :: nat
  m_controls :: "(jsval \<times> jsval) list"

record engine =
  fitView :: "frame \<Rightarrow> (jsval \<times> jsval) \<times> jsval"

definition L_map :: "jsval \<Rightarrow> lmap" where
  "L_map containerId = \<lparr> m_container = containerId, m_center = (JUndefined, JUndefined),
     m_zoom = JUndefined, m_layers = [], m_clickListeners = 0, m_containerListeners = 0,
     m_controls = [] \<rparr>"

definition map_setView :: "jsval \<times> jsval \<Rightarrow> jsval \<Rightarrow> lmap \<Rightarrow> lmap" where
  "map_setView c z m = m\<lparr> m_center := c, m_zoom := z \<rparr>"

definition map_fitBounds :: "engine \<Rightarrow> frame \<Rightarrow> lmap \<Rightarrow> lmap" where
  "map_fitBounds eng fr m = m\<lparr> m_center := fst (fitView eng fr), m_zoom := snd (fitView eng fr) \<rparr>"

definition addTo :: "handle \<Rightarrow> lmap \<Rightarrow> lmap" where
  "addTo h m = (if h \<in> set (m_layers m) then m else m\<lparr> m_layers := m_layers m @ [h] \<rparr>)"

definition removeLayer :: "handle \<Rightarrow> lmap \<Rightarrow> lmap" where
  "removeLayer h m = m\<lparr> m_layers := removeAll h (m_layers m) \<rparr>"

subsection \<open>The session\<close>

datatype callback = NoopDefault | UserFn nat

record selected_point =
  sp_lat :: jsnum
  sp_lng :: jsnum
  sp_timestamp :: string
  sp_formatted :: string
  sp_googleMapsUrl :: string
  sp_openStreetMapUrl :: string

record route_layer =
  rl_polyline :: handle
  rl_originMarker :: "handle option"
  rl_destinationMarker :: "handle option"

record route_data =
  rd_distance :: jsval
  rd_distanceKm :: string
  rd_duration :: jsval
  rd_durationMin :: jsval
  rd_type :: string

record route_result =
  rr_data :: route_data
  rr_origin :: "handle option"
  rr_destination :: "handle option"
  rr_polyline :: handle

text \<open>
  The private fields of the class, the counter of object identities, and what the
  session does to its surroundings: the number of \<open>alert\<close> notices shown and the calls
  made to the \<open>onSelect\<close> callback. Console output is not recorded.
\<close>

record session =
  config :: config
  mapObj :: "lmap option"
  selectorMarker :: "handle option"
  selectedCoords :: "(jsval \<times> jsval) option"
  isSelectorEnabled :: bool
  onSelectCallback :: "callback option"
  routeLayers :: "route_layer list"
  markers :: "handle list"
  circles :: "handle list"
  nextId :: nat
  alerts :: nat
  callbackLog :: "(callback \<times> selected_point) list"

datatype retval =
    RThis
  | RUndefined
  | RNull
  | RHandle handle
  | RList "handle list"
  | RPoint selected_point
  | RRoute route_result

datatype outcome = Throws js_error | Returns retval

definition override :: "jsval \<Rightarrow> jsval option \<Rightarrow> jsval" where
  "override d v = (case v of None \<Rightarrow> d | Some x \<Rightarrow> x)"

definition constructor :: "options \<Rightarrow> session" where
  "constructor opts = \<lparr>
     config = \<lparr>
       cfg_lat = override (cfg_lat DEFAULTS) (opt_lat opts),
       cfg_lng = override (cfg_lng DEFAULTS) (opt_lng opts),
       cfg_zoom = override (cfg_zoom DEFAULTS) (opt_zoom opts),
       cfg_containerId = override (cfg_containerId DEFAULTS) (opt_containerId opts),
       cfg_tileUrl = override (cfg_tileUrl DEFAULTS) (opt_tileUrl opts),
       cfg_attribution = override (cfg_attribution DEFAULTS) (opt_attribution opts),
       cfg_selectorIcon = override (cfg_selectorIcon DEFAULTS) (opt_selectorIcon opts) \<rparr>,
     mapObj = None,
     selectorMarker = None,
     selectedCoords = None,
     isSelectorEnabled = False,
     onSelectCallback = None,
     routeLayers = [],
     markers = [],
     circles = [],
     nextId = 0,
     alerts = 0,
     callbackLog = [] \<rparr>"

definition isInitialized :: "session \<Rightarrow> bool" where
  "isInitialized s = (mapObj s \<noteq> None)"

definition requireMap :: "session \<Rightarrow> bool" where
  "requireMap s = (mapObj s \<noteq> None)"

definition requireSelector :: "session \<Rightarrow> bool" where
  "requireSelector s = (if \<not> requireMap s then False else isSelectorEnabled s)"

text \<open>An engine call on \<open>this.#map\<close>; every caller has checked that the map is there.\<close>

definition onMap :: "(lmap \<Rightarrow> lmap) \<Rightarrow> session \<Rightarrow> session" where
  "onMap f s = s\<lparr> mapObj := map_option f (mapObj s) \<rparr>"

section \<open>Arguments of the public operations\<close>

record init_params =
  ip_lat :: jsval
  ip_lng :: jsval
  ip_containerId :: jsval
  ip_zoom :: jsval

record search_options =
  so_placeholder :: jsval
  so_errorMessage :: jsval

record endpoint =
  e_lat :: jsval
  e_lng :: jsval
  e_icon :: jsval
  e_popup :: jsval

record route_options =
  ro_useRoadRoute :: jsval
  ro_color :: jsval
  ro_weight :: jsval
  ro_opacity :: jsval
  ro_fitBounds :: jsval
  ro_dashArray :: jsval

record marker_spec =
  ms_lat :: jsval
  ms_lng :: jsval
  ms_icon :: jsval
  ms_popup :: jsval

record bulk_options =
  bo_fitBounds :: jsval

record circle_options =
  co_color :: jsval
  co_fillColor :: jsval
  co_fillOpacity :: jsval
  co_weight :: jsval
  co_popup :: jsval

record circle_spec =
  cp_lat :: jsval
  cp_lng :: jsval
  cp_radius :: jsval
  cp_opts :: circle_options

text \<open>The empty object \<open>{}\<close> of each kind: every key reads \<open>undefined\<close>.\<close>

definition no_init_params :: init_params where
  "no_init_params = \<lparr> ip_lat = JUndefined, ip_lng = JUndefined, ip_containerId = JUndefined,
     ip_zoom = JUndefined \<rparr>"

definition no_search_options :: search_options where
  "no_search_options = \<lparr> so_placeholder = JUndefined, so_errorMessage = JUndefined \<rparr>"

definition no_route_options :: route_options where
  "no_route_options = \<lparr> ro_useRoadRoute = JUndefined, ro_color = JUndefined,
     ro_weight = JUndefined, ro_opacity = JUndefined, ro_fitBounds = JUndefined,
     ro_dashArray = JUndefined \<rparr>"

definition no_bulk_options :: bulk_options where
  "no_bulk_options = \<lparr> bo_fitBounds = JUndefined \<rparr>"

definition no_circle_options :: circle_options where
  "no_circle_options = \<lparr> co_color = JUndefined, co_fillColor = JUndefined,
     co_fillOpacity = JUndefined, co_weight = JUndefined, co_popup = JUndefined \<rparr>"

fun argOr :: "'a arg \<Rightarrow> 'a \<Rightarrow> 'a" where
  "argOr (Given x) d = x"
| "argOr _ d = d"

text \<open>
  The answer of the routing service to one request: the request fails, the body is not
  JSON, or the body is an object whose \<open>routes\<close> is absent or a list of routes; a route
  whose \<open>geometry.coordinates\<close> cannot be read has no geometry.
\<close>

record osrm_route =
  r_distance :: jsval
  r_duration :: jsval
  r_geometry :: "(jsval \<times> jsval) list option"

datatype osrm_reply = NetworkError | MalformedJson | Body "osrm_route list option"

section \<open>Operations\<close>

subsection \<open>Initialisation\<close>

definition initMap :: "jsenv \<Rightarrow> session \<Rightarrow> init_params arg \<Rightarrow> outcome \<times> session" where
  "initMap env s params =
     (case params of
        NullArg \<Rightarrow> (Throws TypeError, s)
      | _ \<Rightarrow>
        (let p = argOr params no_init_params;
             lat = js_or (JNum (parseFloat env (ip_lat p))) (cfg_lat (config s));
             lng = js_or (JNum (parseFloat env (ip_lng p))) (cfg_lng (config s));
             containerId = js_or (ip_containerId p) (cfg_containerId (config s));
             zoom = js_or (JNum (parseInt env (ip_zoom p))) (cfg_zoom (config s));
             cfg = (config s)\<lparr> cfg_lat := lat, cfg_lng := lng, cfg_zoom := zoom \<rparr>;
             tile = Handle (nextId s) (TileLayer (cfg_tileUrl cfg) (cfg_attribution cfg));
             m = addTo tile (map_setView (lat, lng) zoom (L_map containerId))
         in (Returns RThis,
             s\<lparr> config := cfg, mapObj := Some m, nextId := Suc (nextId s) \<rparr>)))"

subsection \<open>Search\<close>

definition setupSearch :: "session \<Rightarrow> search_options arg \<Rightarrow> outcome \<times> session" where
  "setupSearch s opts =
     (if \<not> requireMap s then (Returns RThis, s)
      else case opts of
        NullArg \<Rightarrow> (Throws TypeError, s)
      | _ \<Rightarrow>
        (let ob = argOr opts no_search_options;
             geocoder =
               (js_coalesce (so_placeholder ob) (JStr ''Buscar ciudad''),
                js_coalesce (so_errorMessage ob)
                  (JStr (''No se encontr'' @ [CHR 0xC3, CHR 0xB3] @ '' la ciudad'')))
         in (Returns RThis, onMap (\<lambda>m. m\<lparr> m_controls := m_controls m @ [geocoder] \<rparr>) s)))"

text \<open>The \<open>markgeocode\<close> listener of a geocoder on the surface.\<close>

definition markGeocode :: "engine \<Rightarrow> session \<Rightarrow> real \<Rightarrow> real \<Rightarrow> real \<Rightarrow> real \<Rightarrow> session" where
  "markGeocode eng s south west north east =
     onMap (\<lambda>m. if m_controls m = [] then m
                 else map_fitBounds eng (FrameBox south west north east) m) s"

subsection \<open>Generic markers\<close>

definition addMarker ::
  "session \<Rightarrow> jsval \<Rightarrow> jsval \<Rightarrow> jsval \<Rightarrow> popup \<Rightarrow> handle option \<times> session" where
  "addMarker s lat0 lng0 icon0 popupContent =
     (if \<not> requireMap s then (None, s)
      else
        (let lat = js_coalesce lat0 (cfg_lat (config s));
             lng = js_coalesce lng0 (cfg_lng (config s));
             icon = js_default icon0 (JStr icon_package);
             marker = Handle (nextId s)
               (Marker lat lng icon (if popup_truthy popupContent then Some popupContent else None))
         in (Some marker,
             (onMap (addTo marker) s)\<lparr> markers := markers s @ [marker],
                                       nextId := Suc (nextId s) \<rparr>)))"

text \<open>
  The \<open>map\<close> of \<open>addMarkers\<close> over the specs: an element that is \<open>null\<close> or
  \<open>undefined\<close> cannot be destructured, and the markers added before it stay.
\<close>

fun addMarkers_map ::
  "session \<Rightarrow> marker_spec option list \<Rightarrow> handle option list
     \<Rightarrow> js_error option \<times> handle option list \<times> session" where
  "addMarkers_map s [] acc = (None, acc, s)"
| "addMarkers_map s (None # rest) acc = (Some TypeError, acc, s)"
| "addMarkers_map s (Some sp # rest) acc =
     (let r = addMarker s (ms_lat sp) (ms_lng sp)
                (js_coalesce (ms_icon sp) (JStr icon_package))
                (Html (js_coalesce (ms_popup sp) JNull))
      in addMarkers_map (snd r) rest (acc @ [fst r]))"

definition filterBoolean :: "handle option list \<Rightarrow> handle list" where
  "filterBoolean hs = List.map_filter (\<lambda>h. h) hs"

definition addMarkers ::
  "engine \<Rightarrow> session \<Rightarrow> marker_spec option list arg \<Rightarrow> bulk_options arg
     \<Rightarrow> outcome \<times> session" where
  "addMarkers eng s specs opts =
     (if \<not> requireMap s then (Returns (RList []), s)
      else case opts of
        NullArg \<Rightarrow> (Throws TypeError, s)
      | _ \<Rightarrow>
        (let fitBounds = js_default (bo_fitBounds (argOr opts no_bulk_options)) (JBool False)
         in case specs of
              NullArg \<Rightarrow> (Throws TypeError, s)
            | _ \<Rightarrow>
              (case addMarkers_map s (argOr specs []) [] of
                 (Some e, acc, s1) \<Rightarrow> (Throws e, s1)
               | (None, acc, s1) \<Rightarrow>
                 (let created = filterBoolean acc
                  in (Returns RThis,
                      if truthy fitBounds \<and> 0 < length created
                      then onMap (map_fitBounds eng (FrameLayers created)) s1
                      else s1)))))"

definition removeLayers :: "handle list \<Rightarrow> lmap \<Rightarrow> lmap" where
  "removeLayers hs m = foldl (\<lambda>m' h. removeLayer h m') m hs"

definition clearMarkers :: "session \<Rightarrow> outcome \<times> session" where
  "clearMarkers s =
     (if mapObj s = None then (Returns RThis, s)
      else (Returns RThis, (onMap (removeLayers (markers s)) s)\<lparr> markers := [] \<rparr>))"

subsection \<open>Circles\<close>

definition addCircle ::
  "session \<Rightarrow> jsval \<Rightarrow> jsval \<Rightarrow> jsval \<Rightarrow> circle_options arg
     \<Rightarrow> outcome \<times> handle option \<times> session" where
  "addCircle s lat lng radius0 opts =
     (if \<not> requireMap s then (Returns RNull, None, s)
      else case opts of
        NullArg \<Rightarrow> (Throws TypeError, None, s)
      | _ \<Rightarrow>
        (let ob = argOr opts no_circle_options;
             radius = js_default radius0 (JNum (Fin 5000));
             color = js_default (co_color ob) (JStr ''#2C6B94'');
             fillColor = js_default (co_fillColor ob) (JStr ''#2C6B94'');
             fillOpacity = js_default (co_fillOpacity ob) (JNum (Fin 0.15));
             weight = js_default (co_weight ob) (JNum (Fin 2));
             popup = js_default (co_popup ob) JNull;
             circle = Handle (nextId s)
               (Circle lat lng
                  \<lparr> cs_radius = radius, cs_color = color, cs_fillColor = fillColor,
                    cs_fillOpacity = fillOpacity, cs_weight = weight \<rparr>
                  (if truthy popup then Some popup else None))
         in (Returns (RHandle circle), Some circle,
             (onMap (addTo circle) s)\<lparr> circles := circles s @ [circle],
                                       nextId := Suc (nextId s) \<rparr>)))"

fun addCircles_map ::
  "session \<Rightarrow> circle_spec option list \<Rightarrow> handle option list
     \<Rightarrow> js_error option \<times> handle option list \<times> session" where
  "addCircles_map s [] acc = (None, acc, s)"
| "addCircles_map s (None # rest) acc = (Some TypeError, acc, s)"
| "addCircles_map s (Some sp # rest) acc =
     (case addCircle s (cp_lat sp) (cp_lng sp) (cp_radius sp) (Given (cp_opts sp)) of
        (Throws e, h, s1) \<Rightarrow> (Some e, acc, s1)
      | (Returns v, h, s1) \<Rightarrow> addCircles_map s1 rest (acc @ [h]))"

definition addCircles ::
  "engine \<Rightarrow> session \<Rightarrow> circle_spec option list arg \<Rightarrow> bulk_options arg
     \<Rightarrow> outcome \<times> session" where
  "addCircles eng s specs opts =
     (if \<not> requireMap s then (Returns RThis, s)
      else case opts of
        NullArg \<Rightarrow> (Throws TypeError, s)
      | _ \<Rightarrow>
        (let fitBounds = js_default (bo_fitBounds (argOr opts no_bulk_options)) (JBool False)
         in case specs of
              NullArg \<Rightarrow> (Throws TypeError, s)
            | _ \<Rightarrow>
              (case addCircles_map s (argOr specs []) [] of
                 (Some e, acc, s1) \<Rightarrow> (Throws e, s1)
               | (None, acc, s1) \<Rightarrow>
                 (let created = filterBoolean acc
                  in (Returns RThis,
                      if truthy fitBounds \<and> 0 < length created
                      then onMap (map_fitBounds eng (FrameLayers created)) s1
                      else s1)))))"

definition clearCircles :: "session \<Rightarrow> outcome \<times> session" where
  "clearCircles s =
     (if mapObj s = None then (Returns RThis, s)
      else (Returns RThis, (onMap (removeLayers (circles s)) s)\<lparr> circles := [] \<rparr>))"

subsection \<open>Coordinate selector\<close>

definition clearSelector :: "session \<Rightarrow> session" where
  "clearSelector s =
     (case (mapObj s, selectorMarker s) of
        (Some m, Some h) \<Rightarrow>
          (onMap (removeLayer h) s)\<lparr> selectorMarker := None, selectedCoords := None \<rparr>
      | _ \<Rightarrow> s)"

definition buildSelectorPopup :: "jsval \<Rightarrow> jsval \<Rightarrow> popup" where
  "buildSelectorPopup lat lng = SelectorPopup lat lng"

definition placeSelector :: "session \<Rightarrow> jsval \<Rightarrow> jsval \<Rightarrow> jsval \<Rightarrow> outcome \<times> session" where
  "placeSelector s lat lng icon0 =
     (if \<not> requireSelector s then (Returns RUndefined, s)
      else
        (let icon = js_coalesce icon0 (cfg_selectorIcon (config s));
             s1 = clearSelector s;
             s2 = s1\<lparr> selectedCoords := Some (lat, lng) \<rparr>;
             popup = buildSelectorPopup lat lng;
             r = addMarker s2 lat lng icon popup
         in (Returns RUndefined, (snd r)\<lparr> selectorMarker := fst r \<rparr>)))"

text \<open>
  \<open>setupSelector\<close>: the surface has its view since \<open>initMap\<close>, so the engine runs the
  \<open>whenReady\<close> callback at once.
\<close>

definition setupSelector :: "session \<Rightarrow> callback arg \<Rightarrow> outcome \<times> session" where
  "setupSelector s onSelect =
     (if \<not> requireMap s then (Returns RThis, s)
      else
        (let s1 = s\<lparr> isSelectorEnabled := True,
                     onSelectCallback :=
                       (case onSelect of
                          Omitted \<Rightarrow> Some NoopDefault
                        | NullArg \<Rightarrow> None
                        | Given f \<Rightarrow> Some f) \<rparr>;
             s2 = onMap (\<lambda>m. m\<lparr> m_clickListeners := Suc (m_clickListeners m),
                                  m_containerListeners := Suc (m_containerListeners m) \<rparr>) s1;
             s3 = snd (placeSelector s2 (cfg_lat (config s2)) (cfg_lng (config s2)) JUndefined)
         in (Returns RThis, s3)))"

definition googleMaps :: "jsenv \<Rightarrow> jsval \<Rightarrow> jsval \<Rightarrow> string" where
  "googleMaps env lat lng = ''https://www.google.com/maps?q='' @ toStr env lat @ '','' @ toStr env lng"

definition openStreetMap :: "jsenv \<Rightarrow> jsval \<Rightarrow> jsval \<Rightarrow> string" where
  "openStreetMap env lat lng =
     ''https://www.openstreetmap.org/?mlat='' @ toStr env lat @ ''&mlon='' @ toStr env lng
       @ ''&zoom=15''"

text \<open>The argument \<open>now\<close> is what \<open>new Date().toISOString()\<close> gives at the call.\<close>

definition getSelectedCoordinates :: "jsenv \<Rightarrow> string \<Rightarrow> session \<Rightarrow> selected_point option" where
  "getSelectedCoordinates env now s =
     (case selectedCoords s of
        None \<Rightarrow> None
      | Some (lat, lng) \<Rightarrow>
          Some \<lparr> sp_lat = parseFloat env lat,
                 sp_lng = parseFloat env lng,
                 sp_timestamp = now,
                 sp_formatted = toStr env lat @ '', '' @ toStr env lng,
                 sp_googleMapsUrl = googleMaps env lat lng,
                 sp_openStreetMapUrl = openStreetMap env lat lng \<rparr>)"

definition confirmSelection :: "jsenv \<Rightarrow> string \<Rightarrow> session \<Rightarrow> outcome \<times> session" where
  "confirmSelection env now s =
     (case getSelectedCoordinates env now s of
        None \<Rightarrow> (Returns RNull, s\<lparr> alerts := Suc (alerts s) \<rparr>)
      | Some coords \<Rightarrow>
          (Returns (RPoint coords),
           case onSelectCallback s of
             None \<Rightarrow> s
           | Some f \<Rightarrow> s\<lparr> callbackLog := callbackLog s @ [(f, coords)] \<rparr>))"

text \<open>A click on the surface at a position the engine reports as two numbers.\<close>

definition handleMapClick :: "jsenv \<Rightarrow> session \<Rightarrow> real \<Rightarrow> real \<Rightarrow> session" where
  "handleMapClick env s clat clng =
     (if \<not> isSelectorEnabled s then s
      else
        (let lat = JStr (numToFixed env 8 (Fin clat));
             lng = JStr (numToFixed env 8 (Fin clng))
         in snd (placeSelector s lat lng JUndefined)))"

subsection \<open>Routes\<close>

definition buildStraightRoute ::
  "jsenv \<Rightarrow> session \<Rightarrow> endpoint \<Rightarrow> endpoint \<Rightarrow> line_style
     \<Rightarrow> (handle \<times> route_data) \<times> session" where
  "buildStraightRoute env s origin destination lineStyle0 =
     (let coordinates =
            [(JNum (parseFloat env (e_lat origin)), JNum (parseFloat env (e_lng origin))),
             (JNum (parseFloat env (e_lat destination)),
              JNum (parseFloat env (e_lng destination)))];
          lineStyle = (if \<not> truthy (ls_dashArray lineStyle0)
                       then lineStyle0\<lparr> ls_dashArray := JStr ''10, 8'' \<rparr> else lineStyle0);
          polyline = Handle (nextId s) (Polyline coordinates lineStyle);
          distance = haversineJs env (e_lat origin) (e_lng origin)
                       (e_lat destination) (e_lng destination)
      in ((polyline,
           \<lparr> rd_distance = JNum distance,
             rd_distanceKm = numToFixed env 2 (divBy distance 1000),
             rd_duration = JNull,
             rd_durationMin = JNull,
             rd_type = ''straight'' \<rparr>),
          (onMap (addTo polyline) s)\<lparr> nextId := Suc (nextId s) \<rparr>))"

text \<open>
  \<open>#fetchRoadRoute\<close>, given the service's answer to its request. Every failure inside
  the \<open>try\<close> block is caught and gives \<open>null\<close>.
\<close>

definition fetchRoadRoute ::
  "jsenv \<Rightarrow> session \<Rightarrow> endpoint \<Rightarrow> endpoint \<Rightarrow> line_style \<Rightarrow> osrm_reply
     \<Rightarrow> (handle \<times> route_data) option \<times> session" where
  "fetchRoadRoute env s origin destination lineStyle reply =
     (case reply of
        NetworkError \<Rightarrow> (None, s)
      | MalformedJson \<Rightarrow> (None, s)
      | Body None \<Rightarrow> (None, s)
      | Body (Some []) \<Rightarrow> (None, s)
      | Body (Some (route # others)) \<Rightarrow>
          (case r_geometry route of
             None \<Rightarrow> (None, s)
           | Some cs \<Rightarrow>
               (let coordinates = map (\<lambda>(lng, lat). (lat, lng)) cs;
                    polyline = Handle (nextId s) (Polyline coordinates lineStyle)
                in (Some (polyline,
                      \<lparr> rd_distance = r_distance route,
                        rd_distanceKm =
                          numToFixed env 2 (divBy (toNumber env (r_distance route)) 1000),
                        rd_duration = r_duration route,
                        rd_durationMin =
                          JStr (numToFixed env 1 (divBy (toNumber env (r_duration route)) 60)),
                        rd_type = ''road'' \<rparr>),
                    (onMap (addTo polyline) s)\<lparr> nextId := Suc (nextId s) \<rparr>))))"

text \<open>
  \<open>drawRoute\<close>, with the service's answer as an argument: the request is the only point
  where the operation waits, and it is taken to complete before the next operation of the
  session starts.
\<close>

definition drawRoute ::
  "jsenv \<Rightarrow> engine \<Rightarrow> session \<Rightarrow> endpoint option \<Rightarrow> endpoint option \<Rightarrow> route_options arg
     \<Rightarrow> osrm_reply \<Rightarrow> outcome \<times> session" where
  "drawRoute env eng s origin0 destination0 routeOptions reply =
     (if \<not> requireMap s then (Returns RNull, s)
      else case (origin0, destination0) of
        (Some origin, Some destination) \<Rightarrow>
          (if \<not> truthy (e_lat origin) \<or> \<not> truthy (e_lng origin)
              \<or> \<not> truthy (e_lat destination) \<or> \<not> truthy (e_lng destination)
           then (Returns RNull, s)
           else case routeOptions of
             NullArg \<Rightarrow> (Throws TypeError, s)
           | _ \<Rightarrow>
             (let ro = argOr routeOptions no_route_options;
                  useRoadRoute = js_default (ro_useRoadRoute ro) (JBool False);
                  color = js_default (ro_color ro) (JStr ''#2C6B94'');
                  weight = js_default (ro_weight ro) (JNum (Fin 5));
                  opacity = js_default (ro_opacity ro) (JNum (Fin 0.7));
                  fitBounds = js_default (ro_fitBounds ro) (JBool True);
                  dashArray = js_default (ro_dashArray ro) JNull;
                  lineStyle = \<lparr> ls_color = color, ls_weight = weight, ls_opacity = opacity,
                                ls_dashArray = (if truthy dashArray then dashArray else JUndefined) \<rparr>;
                  om = addMarker s (e_lat origin) (e_lng origin)
                         (js_coalesce (e_icon origin) (JStr icon_home))
                         (Html (js_coalesce (e_popup origin) JNull));
                  originMarker = fst om;
                  dm = addMarker (snd om) (e_lat destination) (e_lng destination)
                         (js_coalesce (e_icon destination) (JStr icon_package))
                         (Html (js_coalesce (e_popup destination) JNull));
                  destinationMarker = fst dm;
                  res = (if truthy useRoadRoute
                         then (case fetchRoadRoute env (snd dm) origin destination lineStyle reply of
                                 (Some r, s1) \<Rightarrow> (r, s1)
                               | (None, s1) \<Rightarrow>
                                   buildStraightRoute env s1 origin destination lineStyle)
                         else buildStraightRoute env (snd dm) origin destination lineStyle);
                  polyline = fst (fst res);
                  s2 = (snd res)\<lparr> routeLayers := routeLayers (snd res) @
                         [\<lparr> rl_polyline = polyline, rl_originMarker = originMarker,
                            rl_destinationMarker = destinationMarker \<rparr>] \<rparr>;
                  s3 = (if truthy fitBounds
                        then onMap (map_fitBounds eng (FrameLayers [polyline])) s2 else s2)
              in (Returns (RRoute \<lparr> rr_data = snd (fst res), rr_origin = originMarker,
                                    rr_destination = destinationMarker,
                                    rr_polyline = polyline \<rparr>), s3)))
      | _ \<Rightarrow> (Returns RNull, s))"

definition getZoom :: "session \<Rightarrow> jsval" where
  "getZoom s = (case mapObj s of None \<Rightarrow> JUndefined | Some m \<Rightarrow> m_zoom m)"

definition setView :: "session \<Rightarrow> jsval \<Rightarrow> jsval \<Rightarrow> jsval \<Rightarrow> outcome \<times> session" where
  "setView s lat lng zoom =
     (if \<not> requireMap s then (Returns RThis, s)
      else (Returns RThis, onMap (map_setView (lat, lng) (js_or zoom (getZoom s))) s))"

definition routeHandles :: "route_layer \<Rightarrow> handle list" where
  "routeHandles rl =
     rl_polyline rl
       # (case rl_originMarker rl of None \<Rightarrow> [] | Some h \<Rightarrow> [h])
       @ (case rl_destinationMarker rl of None \<Rightarrow> [] | Some h \<Rightarrow> [h])"

definition clearRoutes :: "session \<Rightarrow> session" where
  "clearRoutes s =
     (if mapObj s = None then s
      else (onMap (removeLayers (concat (map routeHandles (routeLayers s)))) s)
             \<lparr> routeLayers := [] \<rparr>)"

section \<open>Sequences of operations\<close>

text \<open>
  The public methods and the three events the session listens to: a click on the
  surface, a click on the confirm button of the selector popup, and a geocoder result.
  A listener runs once for each time it was registered.
\<close>

datatype op =
    InitMap "init_params arg"
  | SetupSearch "search_options arg"
  | SetupSelector "callback arg"
  | PlaceSelector jsval jsval jsval
  | ClearSelector
  | GetSelectedCoordinates string
  | ConfirmSelection string
  | DrawRoute "endpoint option" "endpoint option" "route_options arg" osrm_reply
  | SetView jsval jsval jsval
  | ClearRoutes
  | AddMarker jsval jsval jsval jsval
  | AddMarkers "marker_spec option list arg" "bulk_options arg"
  | ClearMarkers
  | AddCircle jsval jsval jsval "circle_options arg"
  | AddCircles "circle_spec option list arg" "bulk_options arg"
  | ClearCircles
  | MapClick real real
  | ConfirmClick string
  | MarkGeocode real real real real

definition clickListeners :: "session \<Rightarrow> nat" where
  "clickListeners s = (case mapObj s of None \<Rightarrow> 0 | Some m \<Rightarrow> m_clickListeners m)"

definition containerListeners :: "session \<Rightarrow> nat" where
  "containerListeners s = (case mapObj s of None \<Rightarrow> 0 | Some m \<Rightarrow> m_containerListeners m)"

fun step :: "jsenv \<Rightarrow> engine \<Rightarrow> session \<Rightarrow> op \<Rightarrow> outcome \<times> session" where
  "step env eng s (InitMap params) = initMap env s params"
| "step env eng s (SetupSearch opts) = setupSearch s opts"
| "step env eng s (SetupSelector onSelect) = setupSelector s onSelect"
| "step env eng s (PlaceSelector lat lng icon) = placeSelector s lat lng icon"
| "step env eng s ClearSelector = (Returns RUndefined, clearSelector s)"
| "step env eng s (GetSelectedCoordinates now) =
     (case getSelectedCoordinates env now s of
        None \<Rightarrow> (Returns RNull, s)
      | Some c \<Rightarrow> (Returns (RPoint c), s))"
| "step env eng s (ConfirmSelection now) = confirmSelection env now s"
| "step env eng s (DrawRoute origin destination routeOptions reply) =
     drawRoute env eng s origin destination routeOptions reply"
| "step env eng s (SetView lat lng zoom) = setView s lat lng zoom"
| "step env eng s ClearRoutes = (Returns RUndefined, clearRoutes s)"
| "step env eng s (AddMarker lat lng icon popupContent) =
     (case addMarker s lat lng icon (Html (js_default popupContent JNull)) of
        (None, s1) \<Rightarrow> (Returns RNull, s1)
      | (Some h, s1) \<Rightarrow> (Returns (RHandle h), s1))"
| "step env eng s (AddMarkers specs opts) = addMarkers eng s specs opts"
| "step env eng s ClearMarkers = clearMarkers s"
| "step env eng s (AddCircle lat lng radius opts) =
     (case addCircle s lat lng radius opts of (r, h, s1) \<Rightarrow> (r, s1))"
| "step env eng s (AddCircles specs opts) = addCircles eng s specs opts"
| "step env eng s ClearCircles = clearCircles s"
| "step env eng s (MapClick clat clng) =
     (Returns RUndefined, ((\<lambda>t. handleMapClick env t clat clng) ^^ clickListeners s) s)"
| "step env eng s (ConfirmClick now) =
     (Returns RUndefined, ((\<lambda>t. snd (confirmSelection env now t)) ^^ containerListeners s) s)"
| "step env eng s (MarkGeocode south west north east) =
     (Returns RUndefined, markGeocode eng s south west north east)"

text \<open>A caller may catch an exception and go on, so a run continues after one.\<close>

fun run :: "jsenv \<Rightarrow> engine \<Rightarrow> session \<Rightarrow> op list \<Rightarrow> session" where
  "run env eng s [] = s"
| "run env eng s (x # xs) = run env eng (snd (step env eng s x)) xs"

section \<open>Notions used by the properties\<close>

text \<open>A host and an engine to run the model on concrete inputs.\<close>

definition env0 :: jsenv where
  "env0 = \<lparr> strParseFloat = (\<lambda>s. NaN), strParseInt = (\<lambda>s. NaN), strToNumber = (\<lambda>s. NaN),
     expParseInt = (\<lambda>r. NaN), numToString = (\<lambda>n. ''n''), numToFixed = (\<lambda>d n. ''n'') \<rparr>"

definition eng0 :: engine where
  "eng0 = \<lparr> fitView = (\<lambda>f. ((JNum (Fin 0), JNum (Fin 0)), JNum (Fin 1))) \<rparr>"

text \<open>
  The operations that start with the guard \<open>#requireMap\<close>, \<open>#requireSelector\<close> or
  \<open>!this.#map\<close>: the public operations other than \<open>initMap\<close>, the two accessors of the
  selection and the events.
\<close>

fun guardedOp :: "op \<Rightarrow> bool" where
  "guardedOp (InitMap p) = False"
| "guardedOp (GetSelectedCoordinates now) = False"
| "guardedOp (ConfirmSelection now) = False"
| "guardedOp (MapClick a b) = False"
| "guardedOp (ConfirmClick now) = False"
| "guardedOp (MarkGeocode a b c d) = False"
| "guardedOp _ = True"

text \<open>A result that is \<open>null\<close>, nothing, the session itself or an empty list.\<close>

fun safeReturn :: "retval \<Rightarrow> bool" where
  "safeReturn RNull = True"
| "safeReturn RUndefined = True"
| "safeReturn RThis = True"
| "safeReturn (RList hs) = (hs = [])"
| "safeReturn _ = False"

text \<open>
  Concrete sessions and arguments: a session initialised with the defaults; a session
  with the selector enabled and a point placed at (10.48, -66.90); parameters of
  \<open>initMap\<close> on the equator and the prime meridian with a fractional zoom, and ordinary
  ones; a marker spec.
\<close>

definition s_ready :: session where
  "s_ready = snd (initMap env0 (constructor no_options) Omitted)"

definition s_selected :: session where
  "s_selected = run env0 eng0 (constructor no_options)
     [InitMap Omitted, SetupSelector (Given (UserFn 1)),
      PlaceSelector (JNum (Fin 10.48)) (JNum (Fin (- 66.90))) JUndefined]"

definition zero_params :: init_params where
  "zero_params = \<lparr> ip_lat = JNum (Fin 0), ip_lng = JNum (Fin 0), ip_containerId = JUndefined,
     ip_zoom = JNum (Fin 7.9) \<rparr>"

definition caracas_params :: init_params where
  "caracas_params = \<lparr> ip_lat = JNum (Fin 10.48), ip_lng = JUndefined,
     ip_containerId = JStr ''mi-mapa'', ip_zoom = JNum (Fin 12.5) \<rparr>"

definition one_spec :: marker_spec where
  "one_spec = \<lparr> ms_lat = JNum (Fin 10), ms_lng = JNum (Fin 20), ms_icon = JUndefined,
     ms_popup = JUndefined \<rparr>"

text \<open>The layers on the rendering surface of a session.\<close>

definition surface :: "session \<Rightarrow> handle list" where
  "surface s = (case mapObj s of None \<Rightarrow> [] | Some m \<Rightarrow> m_layers m)"







text \<open>
  The invariant of the layer lists: the surface \<open>sf\<close>, the marker registry \<open>ms\<close>, the
  circle registry \<open>cs\<close>, the identity counter \<open>n\<close> and the selector marker \<open>sm\<close>. No
  list has a handle twice, every identity is below the counter, a registry holds layers
  of its kind only, every marker or circle on the surface is in its registry, and the only
  selector marker that can be on the surface is the one the session holds.
\<close>

definition layersOk ::
  "handle list \<Rightarrow> handle list \<Rightarrow> handle list \<Rightarrow> nat \<Rightarrow> handle option \<Rightarrow> bool" where
  "layersOk sf ms cs n sm \<longleftrightarrow>
     distinct ms \<and> distinct cs \<and> distinct sf
     \<and> (\<forall>h \<in> set ms. isMarker h \<and> hid h < n)
     \<and> (\<forall>h \<in> set cs. isCircle h \<and> hid h < n)
     \<and> (\<forall>h \<in> set sf. hid h < n
           \<and> (isMarker h \<longrightarrow> h \<in> set ms)
           \<and> (isCircle h \<longrightarrow> h \<in> set cs)
           \<and> (isSelectorMarker h \<longrightarrow> sm = Some h))"

text \<open>
  The invariant of a session: the invariant of its layer lists, and a stored selection
  exactly when the session holds a selector marker.
\<close>

definition inv :: "session \<Rightarrow> bool" where
  "inv s \<longleftrightarrow>
     layersOk (surface s) (markers s) (circles s) (nextId s) (selectorMarker s)
     \<and> ((selectedCoords s = None) = (selectorMarker s = None))"












text \<open>
  Every registered circle is on the surface, and what \<open>clearRoutes\<close> and
  \<open>clearSelector\<close> take off the surface is no circle.
\<close>

definition circlesShown :: "session \<Rightarrow> bool" where
  "circlesShown s \<longleftrightarrow>
     set (circles s) \<subseteq> set (surface s)
     \<and> (\<forall>rl \<in> set (routeLayers s). \<forall>h \<in> set (routeHandles rl). \<not> isCircle h)
     \<and> (\<forall>h. selectorMarker s = Some h \<longrightarrow> \<not> isCircle h)"


text \<open>The two invariants together.\<close>

definition good :: "session \<Rightarrow> bool" where
  "good s \<longleftrightarrow> inv s \<and> circlesShown s"


section \<open>Distance calculator: symmetry and coincident points\<close>




text \<open>
  The quantity under the square roots lies between 0 and 1, so that neither
  \<open>Math.sqrt\<close> is applied to a negative real: it is half of one minus the cosine of
  the central angle.
\<close>

lemma haversine_a_cos:
  "1 - 2 * haversine_a lat1 lng1 lat2 lng2 =
     sin (toRad lat1) * sin (toRad lat2)
       + cos (toRad lat1) * cos (toRad lat2) * cos (toRad lng2 - toRad lng1)"
proof -
  have d1: "toRad (lat2 - lat1) = toRad lat2 - toRad lat1"
    and d2: "toRad (lng2 - lng1) = toRad lng2 - toRad lng1"
    by (simp_all add: toRad_def field_simps)
  have h: "\<And>x::real. 2 * (sin (x / 2))\<^sup>2 = 1 - cos x"
    using cos_double_sin[of "x / 2" for x :: real] by simp
  have "2 * haversine_a lat1 lng1 lat2 lng2 =
      2 * (sin ((toRad lat2 - toRad lat1) / 2))\<^sup>2
      + cos (toRad lat1) * cos (toRad lat2) * (2 * (sin ((toRad lng2 - toRad lng1) / 2))\<^sup>2)"
    by (simp add: haversine_a_def d1 d2 algebra_simps)
  also have "\<dots> = (1 - cos (toRad lat2 - toRad lat1))
      + cos (toRad lat1) * cos (toRad lat2) * (1 - cos (toRad lng2 - toRad lng1))"
    by (simp only: h)
  finally show ?thesis
    by (simp add: cos_diff algebra_simps)
qed

lemma unit_dot_bound:
  fixes s1 c1 s2 c2 k :: real
  assumes "s1\<^sup>2 + c1\<^sup>2 = 1" "s2\<^sup>2 + c2\<^sup>2 = 1" "\<bar>k\<bar> \<le> 1"
  shows "\<bar>s1 * s2 + c1 * c2 * k\<bar> \<le> 1"
proof -
  have "0 \<le> (\<bar>s1\<bar> - \<bar>s2\<bar>)\<^sup>2" and "0 \<le> (\<bar>c1\<bar> - \<bar>c2\<bar>)\<^sup>2" by simp_all
  then have a: "2 * (\<bar>s1\<bar> * \<bar>s2\<bar>) \<le> s1\<^sup>2 + s2\<^sup>2" and b: "2 * (\<bar>c1\<bar> * \<bar>c2\<bar>) \<le> c1\<^sup>2 + c2\<^sup>2"
    by (simp_all add: power2_diff)
  have "\<bar>c1 * c2 * k\<bar> = (\<bar>c1\<bar> * \<bar>c2\<bar>) * \<bar>k\<bar>" by (simp add: abs_mult)
  also have "\<dots> \<le> (\<bar>c1\<bar> * \<bar>c2\<bar>) * 1"
    by (rule mult_left_mono) (use assms(3) in simp_all)
  finally have c: "\<bar>c1 * c2 * k\<bar> \<le> \<bar>c1\<bar> * \<bar>c2\<bar>" by simp
  have "\<bar>s1 * s2 + c1 * c2 * k\<bar> \<le> \<bar>s1 * s2\<bar> + \<bar>c1 * c2 * k\<bar>" by (rule abs_triangle_ineq)
  also have "\<dots> \<le> \<bar>s1\<bar> * \<bar>s2\<bar> + \<bar>c1\<bar> * \<bar>c2\<bar>" using c by (simp add: abs_mult)
  finally show ?thesis using a b assms(1,2) by linarith
qed

lemma haversine_a_range:
  "0 \<le> haversine_a lat1 lng1 lat2 lng2 \<and> haversine_a lat1 lng1 lat2 lng2 \<le> 1"
proof -
  have "\<bar>1 - 2 * haversine_a lat1 lng1 lat2 lng2\<bar> \<le> 1"
    unfolding haversine_a_cos by (rule unit_dot_bound) simp_all
  then show ?thesis by linarith
qed


section \<open>Operations before initialisation\<close>

text \<open>
  Claim C10. On a session that has not been initialised, every public operation other
  than the initialisation (\<open>setupSearch\<close>, \<open>setupSelector\<close>, \<open>placeSelector\<close>,
  \<open>drawRoute\<close>, \<open>setView\<close>, \<open>addMarker\<close>, \<open>addMarkers\<close>, \<open>addCircle\<close>, \<open>addCircles\<close>
  and the clear operations) does not throw, whatever its arguments: it returns \<open>null\<close>,
  nothing, an empty list or the session itself, and leaves the whole state, so every
  layer and registry, as it was.
\<close>

theorem uninitialized_fails_safely:
  assumes "mapObj s = None" and "guardedOp x"
  shows "\<exists>v. step env eng s x = (Returns v, s) \<and> safeReturn v"
  using assms
  by (cases x)
     (simp_all add: setupSearch_def setupSelector_def placeSelector_def requireSelector_def
        requireMap_def drawRoute_def setView_def addMarker_def addMarkers_def addCircle_def
        addCircles_def clearSelector_def clearRoutes_def clearMarkers_def clearCircles_def)

theorem uninitialized_fails_safely_witness:
  "mapObj (constructor no_options) = None \<and> guardedOp (AddMarkers NullArg NullArg)
   \<and> (\<exists>v. step env0 eng0 (constructor no_options) (AddMarkers NullArg NullArg)
            = (Returns v, constructor no_options) \<and> safeReturn v)"
  using uninitialized_fails_safely [of "constructor no_options" "AddMarkers NullArg NullArg" env0 eng0]
  by (simp add: constructor_def)

section \<open>Evaluation on concrete sessions\<close>

lemmas op_defs = initMap_def setupSearch_def setupSelector_def placeSelector_def
  requireSelector_def requireMap_def drawRoute_def setView_def addMarker_def addMarkers_def
  addCircle_def addCircles_def clearSelector_def clearRoutes_def clearMarkers_def
  clearCircles_def onMap_def addTo_def removeLayer_def removeLayers_def map_setView_def
  map_fitBounds_def L_map_def js_or_def js_coalesce_def js_default_def constructor_def
  override_def DEFAULTS_def no_options_def no_init_params_def buildSelectorPopup_def
  confirmSelection_def getSelectedCoordinates_def filterBoolean_def no_bulk_options_def
  buildStraightRoute_def fetchRoadRoute_def no_route_options_def


lemma s_selected_facts:
  "selectedCoords s_selected = Some (JNum (Fin 10.48), JNum (Fin (- 66.90)))"
  "onSelectCallback s_selected = Some (UserFn 1)"
  "callbackLog s_selected = []"
  by (simp_all add: s_selected_def op_defs Let_def)

section \<open>Confirming a selection\<close>

text \<open>
  Claim C6. With no point selected, \<open>confirmSelection\<close> returns \<open>null\<close>, shows one
  notice to the user and calls no callback. With a point selected it returns the derived
  point, whose \<open>lat\<close> and \<open>lng\<close> are the numbers parsed from the placed coordinates (the
  placed numbers themselves when numbers were placed), calls the registered callback
  exactly once, with that same point, and leaves the stored selection and the selector
  marker as they were.
\<close>

theorem confirmSelection_contract:
  "(selectedCoords s = None \<longrightarrow>
      confirmSelection env now s = (Returns RNull, s\<lparr> alerts := Suc (alerts s) \<rparr>))
   \<and> (selectedCoords s = Some (lat, lng) \<longrightarrow>
      (\<exists>p. fst (confirmSelection env now s) = Returns (RPoint p)
         \<and> sp_lat p = parseFloat env lat \<and> sp_lng p = parseFloat env lng
         \<and> (\<forall>a b. lat = JNum a \<and> lng = JNum b \<longrightarrow> sp_lat p = a \<and> sp_lng p = b)
         \<and> snd (confirmSelection env now s) =
             (case onSelectCallback s of
                None \<Rightarrow> s
              | Some f \<Rightarrow> s\<lparr> callbackLog := callbackLog s @ [(f, p)] \<rparr>)
         \<and> selectedCoords (snd (confirmSelection env now s)) = Some (lat, lng)
         \<and> selectorMarker (snd (confirmSelection env now s)) = selectorMarker s))"
  by (auto simp: confirmSelection_def getSelectedCoordinates_def split: option.splits)

theorem confirmSelection_contract_witness:
  "selectedCoords (constructor no_options) = None
   \<and> confirmSelection env0 ''t'' (constructor no_options)
       = (Returns RNull, (constructor no_options)\<lparr> alerts := 1 \<rparr>)
   \<and> callbackLog (snd (confirmSelection env0 ''t'' (constructor no_options))) = []
   \<and> selectedCoords s_selected = Some (JNum (Fin 10.48), JNum (Fin (- 66.90)))
   \<and> (\<exists>p. fst (confirmSelection env0 ''t'' s_selected) = Returns (RPoint p)
          \<and> sp_lat p = Fin 10.48 \<and> sp_lng p = Fin (- 66.90)
          \<and> callbackLog (snd (confirmSelection env0 ''t'' s_selected)) = [(UserFn 1, p)])"
proof -
  have n: "selectedCoords (constructor no_options) = None"
    by (simp add: constructor_def)
  from confirmSelection_contract [where s = "constructor no_options" and env = env0 and now = "''t''"] n
  have a: "confirmSelection env0 ''t'' (constructor no_options)
       = (Returns RNull, (constructor no_options)\<lparr> alerts := Suc (alerts (constructor no_options)) \<rparr>)"
    by simp
  have a0: "alerts (constructor no_options) = 0" "callbackLog (constructor no_options) = []"
    by (simp_all add: constructor_def)
  from confirmSelection_contract [where s = s_selected and lat = "JNum (Fin 10.48)"
      and lng = "JNum (Fin (- 66.90))" and env = env0 and now = "''t''"]
    s_selected_facts
  obtain p where p: "fst (confirmSelection env0 ''t'' s_selected) = Returns (RPoint p)"
      "sp_lat p = Fin 10.48" "sp_lng p = Fin (- 66.90)"
      "snd (confirmSelection env0 ''t'' s_selected) = s_selected\<lparr> callbackLog := callbackLog s_selected @ [(UserFn 1, p)] \<rparr>"
    by auto
  show ?thesis using n a a0 p s_selected_facts by auto
qed

section \<open>What \<open>addMarkers\<close> returns\<close>

text \<open>
  Claim C4. \<open>addMarkers\<close> is documented to return the array of the markers it created.
  On an initialised session it returns the session itself: with an empty list and
  \<open>fitBounds\<close> true the result is the session, not an empty array, and the state (so the
  view) is unchanged; with one spec the marker is created and the result is again the
  session, not the list of that marker.
\<close>

theorem addMarkers_returns_session:
  "addMarkers eng0 s_ready (Given []) (Given \<lparr> bo_fitBounds = JBool True \<rparr>) = (Returns RThis, s_ready)
   \<and> fst (addMarkers eng0 s_ready (Given [Some one_spec]) Omitted) = Returns RThis
   \<and> length (markers (snd (addMarkers eng0 s_ready (Given [Some one_spec]) Omitted))) = 1"
  by (simp_all add: s_ready_def one_spec_def op_defs Let_def List.map_filter_simps)

section \<open>Merging the parameters of \<open>initMap\<close>\<close>

lemma trunc_nonzero: "1 \<le> \<bar>z\<bar> \<Longrightarrow> trunc z \<noteq> 0"
  unfolding trunc_def by (auto simp: abs_if split: if_splits) linarith+

text \<open>
  Claim C7, as the code has it. \<open>initMap\<close>, given a parameter object, resolves \<open>lat\<close> and
  \<open>lng\<close> with \<open>parseFloat\<close> and \<open>zoom\<close> with \<open>parseInt\<close>. A \<open>lat\<close> or \<open>lng\<close> that is a
  non-zero number is adopted as the config value; a \<open>zoom\<close> that is a number of magnitude
  at least 1 (and below \<open>10\<^sup>2\<^sup>1\<close>) is adopted cut to its integer part; an input that does
  not parse to a number falls back to the prior config value. The surface is created on
  the given container, or the configured one, centred at the resolved \<open>lat\<close>/\<open>lng\<close> with the
  resolved zoom.
\<close>

theorem initMap_merges_params:
  "fst (initMap env s (Given p)) = Returns RThis
   \<and> (\<forall>x. ip_lat p = JNum (Fin x) \<and> x \<noteq> 0 \<longrightarrow>
          cfg_lat (config (snd (initMap env s (Given p)))) = JNum (Fin x))
   \<and> (\<forall>x. ip_lng p = JNum (Fin x) \<and> x \<noteq> 0 \<longrightarrow>
          cfg_lng (config (snd (initMap env s (Given p)))) = JNum (Fin x))
   \<and> (\<forall>z. ip_zoom p = JNum (Fin z) \<and> 1 \<le> \<bar>z\<bar> \<and> \<bar>z\<bar> < 10 ^ 21 \<longrightarrow>
          cfg_zoom (config (snd (initMap env s (Given p)))) = JNum (Fin (trunc z)))
   \<and> (parseFloat env (ip_lat p) = NaN \<longrightarrow>
          cfg_lat (config (snd (initMap env s (Given p)))) = cfg_lat (config s))
   \<and> (parseFloat env (ip_lng p) = NaN \<longrightarrow>
          cfg_lng (config (snd (initMap env s (Given p)))) = cfg_lng (config s))
   \<and> (parseInt env (ip_zoom p) = NaN \<longrightarrow>
          cfg_zoom (config (snd (initMap env s (Given p)))) = cfg_zoom (config s))
   \<and> (\<exists>m. mapObj (snd (initMap env s (Given p))) = Some m
          \<and> m_center m = (cfg_lat (config (snd (initMap env s (Given p)))),
                          cfg_lng (config (snd (initMap env s (Given p)))))
          \<and> m_zoom m = cfg_zoom (config (snd (initMap env s (Given p))))
          \<and> m_container m = js_or (ip_containerId p) (cfg_containerId (config s)))"
  using trunc_nonzero
  by (auto simp add: initMap_def Let_def js_or_def addTo_def map_setView_def L_map_def)

theorem initMap_merges_params_witness:
  "cfg_lat (config (snd (initMap env0 (constructor no_options) (Given caracas_params))))
     = JNum (Fin 10.48)
   \<and> cfg_lng (config (snd (initMap env0 (constructor no_options) (Given caracas_params))))
     = JNum (Fin (- 65.546409))
   \<and> cfg_zoom (config (snd (initMap env0 (constructor no_options) (Given caracas_params))))
     = JNum (Fin 12)"
proof -
  let ?s = "snd (initMap env0 (constructor no_options) (Given caracas_params))"
  note th = initMap_merges_params [where env = env0 and s = "constructor no_options"
      and p = caracas_params]
  have p: "ip_lat caracas_params = JNum (Fin 10.48)" "ip_lng caracas_params = JUndefined"
    "ip_zoom caracas_params = JNum (Fin 12.5)"
    by (simp_all add: caracas_params_def)
  have c: "cfg_lng (config (constructor no_options)) = JNum (Fin (- 65.546409))"
    by (simp add: constructor_def DEFAULTS_def no_options_def override_def)
  have t: "trunc 12.5 = 12" by (simp add: trunc_def)
  from th have l: "\<And>x. ip_lat caracas_params = JNum (Fin x) \<and> x \<noteq> 0
      \<Longrightarrow> cfg_lat (config ?s) = JNum (Fin x)"
    by blast
  from th have z: "\<And>z. ip_zoom caracas_params = JNum (Fin z) \<and> 1 \<le> \<bar>z\<bar> \<and> \<bar>z\<bar> < 10 ^ 21
      \<Longrightarrow> cfg_zoom (config ?s) = JNum (Fin (trunc z))"
    by blast
  from th have g: "parseFloat env0 (ip_lng caracas_params) = NaN
      \<Longrightarrow> cfg_lng (config ?s) = cfg_lng (config (constructor no_options))"
    by blast
  have "cfg_lat (config ?s) = JNum (Fin 10.48)" using l [of "10.48"] p by simp
  moreover have "cfg_zoom (config ?s) = JNum (Fin 12)" using z [of "12.5"] p t by simp
  moreover have "cfg_lng (config ?s) = JNum (Fin (- 65.546409))" using g p c by simp
  ultimately show ?thesis by simp
qed

text \<open>
  A latitude and a longitude of 0 are numbers, and are not adopted: the defaults stay.
  A zoom of 7.9 is a number, and the config gets 7.
\<close>

theorem initMap_zero_and_fraction_counterexample:
  "cfg_lat (config (snd (initMap env0 (constructor no_options) (Given zero_params)))) = JNum (Fin 8.240773)
   \<and> cfg_lng (config (snd (initMap env0 (constructor no_options) (Given zero_params)))) = JNum (Fin (- 65.546409))
   \<and> cfg_zoom (config (snd (initMap env0 (constructor no_options) (Given zero_params)))) = JNum (Fin 7)"
  by (simp add: op_defs zero_params_def Let_def trunc_def)

section \<open>Routes\<close>






section \<open>The shape of an accepted \<open>drawRoute\<close>\<close>


lemma surface_onMap_addTo_mono:
  "x \<in> set (surface s) \<Longrightarrow> x \<in> set (surface (onMap (addTo h) s))"
  by (auto simp add: surface_def onMap_def addTo_def split: option.splits)






section \<open>The invariant and its preservation\<close>













lemma surface_fields [simp]:
  "surface (s\<lparr> markers := ms \<rparr>) = surface s"
  "surface (s\<lparr> circles := cs \<rparr>) = surface s"
  "surface (s\<lparr> nextId := n \<rparr>) = surface s"
  "surface (s\<lparr> routeLayers := rl \<rparr>) = surface s"
  "surface (s\<lparr> selectorMarker := sm \<rparr>) = surface s"
  "surface (s\<lparr> selectedCoords := sc \<rparr>) = surface s"
  "surface (s\<lparr> config := cf \<rparr>) = surface s"
  "surface (s\<lparr> alerts := al \<rparr>) = surface s"
  "surface (s\<lparr> callbackLog := cl \<rparr>) = surface s"
  "surface (s\<lparr> isSelectorEnabled := en \<rparr>) = surface s"
  "surface (s\<lparr> onSelectCallback := cb \<rparr>) = surface s"
  by (simp_all add: surface_def)

lemma onMap_fields [simp]:
  "markers (onMap f s) = markers s"
  "circles (onMap f s) = circles s"
  "nextId (onMap f s) = nextId s"
  "routeLayers (onMap f s) = routeLayers s"
  "selectorMarker (onMap f s) = selectorMarker s"
  "selectedCoords (onMap f s) = selectedCoords s"
  "config (onMap f s) = config s"
  "isSelectorEnabled (onMap f s) = isSelectorEnabled s"
  "onSelectCallback (onMap f s) = onSelectCallback s"
  "(mapObj (onMap f s) = None) = (mapObj s = None)"
  by (simp_all add: onMap_def)




lemma surface_same:
  assumes "\<And>m. m_layers (f m) = m_layers m"
  shows "surface (onMap f s) = surface s"
  using assms by (simp add: surface_def onMap_def split: option.splits)

lemma surface_fitBounds [simp]: "surface (onMap (map_fitBounds eng fr) s) = surface s"
  by (rule surface_same) (simp add: map_fitBounds_def)

lemma surface_setView [simp]: "surface (onMap (map_setView c z) s) = surface s"
  by (rule surface_same) (simp add: map_setView_def)


lemma inv_irrelevant [simp]:
  "inv (s\<lparr> routeLayers := rl \<rparr>) = inv s"
  "inv (s\<lparr> alerts := al \<rparr>) = inv s"
  "inv (s\<lparr> callbackLog := cl \<rparr>) = inv s"
  "inv (s\<lparr> isSelectorEnabled := en \<rparr>) = inv s"
  "inv (s\<lparr> onSelectCallback := cb \<rparr>) = inv s"
  "inv (s\<lparr> config := cf \<rparr>) = inv s"
  by (simp_all add: inv_def)

lemma inv_view [simp]:
  "inv (onMap (map_fitBounds eng fr) s) = inv s"
  "inv (onMap (map_setView c z) s) = inv s"
  by (simp_all add: inv_def)














lemma clearSelector_keeps [simp]:
  "(mapObj (clearSelector s) = None) = (mapObj s = None)"
  "nextId (clearSelector s) = nextId s"
  "markers (clearSelector s) = markers s"
  "circles (clearSelector s) = circles s"
  "isSelectorEnabled (clearSelector s) = isSelectorEnabled s"
  "config (clearSelector s) = config s"
  by (simp_all add: clearSelector_def onMap_def split: option.splits)


lemma inv_listeners [simp]:
  "inv (onMap (\<lambda>m. m\<lparr> m_clickListeners := a m, m_containerListeners := b m \<rparr>) s) = inv s"
  "inv (onMap (\<lambda>m. m\<lparr> m_controls := c m \<rparr>) s) = inv s"
  by (simp_all add: inv_def surface_same)


















section \<open>Routes and the generic marker registry\<close>











section \<open>Reachable states\<close>






section \<open>Circles on the surface\<close>

lemma cs_fields [simp]:
  "circlesShown (s\<lparr> alerts := al \<rparr>) = circlesShown s"
  "circlesShown (s\<lparr> callbackLog := cl \<rparr>) = circlesShown s"
  "circlesShown (s\<lparr> isSelectorEnabled := en \<rparr>) = circlesShown s"
  "circlesShown (s\<lparr> onSelectCallback := cb \<rparr>) = circlesShown s"
  "circlesShown (s\<lparr> config := cf \<rparr>) = circlesShown s"
  "circlesShown (s\<lparr> selectedCoords := sc \<rparr>) = circlesShown s"
  "circlesShown (s\<lparr> markers := ms \<rparr>) = circlesShown s"
  "circlesShown (s\<lparr> nextId := n \<rparr>) = circlesShown s"
  by (simp_all add: circlesShown_def)

lemma cs_same_layers:
  assumes "\<And>m. m_layers (f m) = m_layers m"
  shows "circlesShown (onMap f s) = circlesShown s"
  using assms by (simp add: circlesShown_def surface_same)

lemma cs_view [simp]:
  "circlesShown (onMap (map_fitBounds eng fr) s) = circlesShown s"
  "circlesShown (onMap (map_setView c z) s) = circlesShown s"
  "circlesShown (onMap (\<lambda>m. m\<lparr> m_clickListeners := a m, m_containerListeners := b m \<rparr>) s)
     = circlesShown s"
  "circlesShown (onMap (\<lambda>m. m\<lparr> m_controls := d m \<rparr>) s) = circlesShown s"
  by (simp_all add: cs_same_layers map_fitBounds_def map_setView_def)

lemma cs_addTo: "circlesShown s \<Longrightarrow> circlesShown (onMap (addTo h) s)"
  unfolding circlesShown_def using surface_onMap_addTo_mono by (simp add: subset_iff)



lemma cs_buildStraightRoute:
  "circlesShown s \<Longrightarrow> circlesShown (snd (buildStraightRoute env s og ds st))"
  by (simp add: buildStraightRoute_def Let_def cs_addTo)

lemma cs_fetchRoadRoute:
  "circlesShown s \<Longrightarrow> circlesShown (snd (fetchRoadRoute env s og ds st reply))"
  by (simp add: fetchRoadRoute_def Let_def cs_addTo
      split: osrm_reply.splits option.splits list.splits)


















lemma good_view [simp]: "good (onMap (map_fitBounds eng fr) s) = good s"
  by (simp add: good_def)















section \<open>Registries and the surface\<close>









end
